theory Spec2Isabelle
  imports Main "HOL-Library.AList" "HOL-Library.Sublist" "HOL-Library.Word"
begin

section \<open>Values handled by the server\<close>

text \<open>
  A \<^verbatim>\<open>datetime\<close> is the instant it denotes on the naive local timeline, counted in
  microseconds (the resolution of Python's \<^verbatim>\<open>datetime\<close>). The server keeps instants as
  the strings \<^verbatim>\<open>datetime.now().isoformat()\<close> returns and reads them back with
  \<^verbatim>\<open>datetime.fromisoformat\<close>; the two are inverse to each other, so such a string is
  represented by its instant (constructor \<open>JIso\<close> below, and the \<open>last_seen\<close> fields).
\<close>

type_synonym datetime = int

text \<open>
  What \<^verbatim>\<open>request.get_json()\<close> hands to a handler: \<^verbatim>\<open>None\<close>, a bool, an int (unbounded),
  a float (its 64 bits), a str, a list or a dict. A dict is kept as an association list
  in insertion order. \<open>JIso\<close> is the str written by the server itself.
\<close>

datatype json =
    JNull
  | JBool bool
  | JInt int
  | JFloat "64 word"
  | JStr string
  | JIso datetime
  | JList "json list"
  | JObj "(string \<times> json) list"

type_synonym pydict = "(string \<times> json) list"

datatype exn = TypeError | ValueError | OverflowError | KeyError

text \<open>\<^verbatim>\<open>data[key] = value\<close>: only a dict supports item assignment with a str key.\<close>

fun setitem :: "json \<Rightarrow> string \<Rightarrow> json \<Rightarrow> exn + pydict" where
  "setitem (JObj kvs) k v = Inr (AList.update k v kvs)"
| "setitem _ k v = Inl TypeError"

text \<open>\<^verbatim>\<open>data[key]\<close> and \<^verbatim>\<open>data.get(key)\<close> on a dict.\<close>

definition getitem :: "pydict \<Rightarrow> string \<Rightarrow> exn + json" where
  "getitem d k = (case map_of d k of None \<Rightarrow> Inl KeyError | Some v \<Rightarrow> Inr v)"

definition dict_get :: "pydict \<Rightarrow> string \<Rightarrow> json" where
  "dict_get d k = (case map_of d k of None \<Rightarrow> JNull | Some v \<Rightarrow> v)"

text \<open>
  \<^verbatim>\<open>f"{v:.4f}"\<close>. Only whether it raises is modelled, not the digits: a float and a bool
  always format, an int formats unless its conversion to a double overflows, a str
  rejects the format code, everything else rejects every format string.
\<close>

fun format_4f :: "json \<Rightarrow> exn + unit" where
  "format_4f (JFloat x) = Inr ()"
| "format_4f (JBool b) = Inr ()"
| "format_4f (JInt n) = (if \<bar>n\<bar> < 2 ^ 1024 - 2 ^ 970 then Inr () else Inl OverflowError)"
| "format_4f (JStr s) = Inl ValueError"
| "format_4f (JIso t) = Inl ValueError"
| "format_4f JNull = Inl TypeError"
| "format_4f (JList xs) = Inl TypeError"
| "format_4f (JObj kvs) = Inl TypeError"

text \<open>The argument of the log line of the vessel and buoy handlers:
  \<^verbatim>\<open>f"... {data.get('lat'):.4f}, {data.get('lon'):.4f}"\<close>, evaluated left to right.\<close>

definition gps_log_line :: "pydict \<Rightarrow> exn + unit" where
  "gps_log_line data =
     (case format_4f (dict_get data ''lat'') of
        Inl e \<Rightarrow> Inl e
      | Inr _ \<Rightarrow> format_4f (dict_get data ''lon''))"

section \<open>The module's state\<close>

text \<open>\<^verbatim>\<open>deque(maxlen=n).append(x)\<close>: append on the right, drop the leftmost when over.\<close>

definition deque_append :: "nat \<Rightarrow> 'a \<Rightarrow> 'a list \<Rightarrow> 'a list" where
  "deque_append maxlen x d = (let d' = d @ [x] in if maxlen < length d' then tl d' else d')"

definition history_maxlen :: nat where
  "history_maxlen = 1000"

record system_status =
  vessel_online :: bool
  buoy_online :: bool
  base_station_online :: bool
  vessel_last_seen :: "datetime option"
  buoy_last_seen :: "datetime option"
  base_station_last_seen :: "datetime option"
  total_messages :: int

text \<open>The module-level variables, and the events handed to \<^verbatim>\<open>socketio.emit\<close> so far.\<close>

record server =
  vessel_data_history :: "pydict list"
  buoy_data_history :: "pydict list"
  base_station_data_history :: "pydict list"
  current_vessel_data :: pydict
  current_buoy_data :: pydict
  current_base_station_data :: pydict
  status :: system_status
  emitted :: "(string \<times> pydict) list"

definition initial_status :: system_status where
  "initial_status =
     \<lparr>vessel_online = False, buoy_online = False, base_station_online = False,
      vessel_last_seen = None, buoy_last_seen = None, base_station_last_seen = None,
      total_messages = 0\<rparr>"

definition initial_server :: server where
  "initial_server =
     \<lparr>vessel_data_history = [], buoy_data_history = [], base_station_data_history = [],
      current_vessel_data = [], current_buoy_data = [], current_base_station_data = [],
      status = initial_status, emitted = []\<rparr>"

section \<open>The POST handlers\<close>

datatype http_method = POST | OPTIONS

text \<open>
  A handler answers \<^verbatim>\<open>'', 200\<close> to OPTIONS, the JSON
  \<^verbatim>\<open>{"status": "success", ..., "timestamp": ts}, 200\<close> after its last statement, and
  \<^verbatim>\<open>{"status": "error", "message": str(e)}, 400\<close> from its \<^verbatim>\<open>except Exception\<close> clause.
\<close>

datatype response = Preflight200 | Success200 json | Error400 exn

text \<open>
  \<open>now1\<close> and \<open>now2\<close> are the values of the two calls of \<^verbatim>\<open>datetime.now()\<close> a handler
  makes: the first stamps the record before the lock is taken, the second is read inside
  the critical section for \<^verbatim>\<open>last_seen\<close>. The statement that stamps the record is the
  first that can raise; the log line comes after the critical section and the emit, so
  an exception there reaches the \<^verbatim>\<open>except\<close> clause with the state already updated.
\<close>

definition receive_vessel_data ::
  "http_method \<Rightarrow> json \<Rightarrow> datetime \<Rightarrow> datetime \<Rightarrow> server \<Rightarrow> response \<times> server" where
  "receive_vessel_data meth body now1 now2 s =
     (if meth = OPTIONS then (Preflight200, s)
      else (case setitem body ''server_timestamp'' (JIso now1) of
        Inl e \<Rightarrow> (Error400 e, s)
      | Inr data \<Rightarrow>
          let s1 = s\<lparr>vessel_data_history :=
                      deque_append history_maxlen data (vessel_data_history s)\<rparr>;
              s2 = s1\<lparr>current_vessel_data := data\<rparr>;
              s3 = s2\<lparr>status := (status s2)\<lparr>vessel_online := True\<rparr>\<rparr>;
              s4 = s3\<lparr>status := (status s3)\<lparr>vessel_last_seen := Some now2\<rparr>\<rparr>;
              s5 = s4\<lparr>status := (status s4)\<lparr>total_messages := total_messages (status s4) + 1\<rparr>\<rparr>;
              s6 = s5\<lparr>emitted := emitted s5 @ [(''vessel_update'', data)]\<rparr>
          in (case gps_log_line data of
                Inl e \<Rightarrow> (Error400 e, s6)
              | Inr _ \<Rightarrow>
                  (case getitem data ''server_timestamp'' of
                     Inl e \<Rightarrow> (Error400 e, s6)
                   | Inr ts \<Rightarrow> (Success200 ts, s6)))))"

definition receive_buoy_data ::
  "http_method \<Rightarrow> json \<Rightarrow> datetime \<Rightarrow> datetime \<Rightarrow> server \<Rightarrow> response \<times> server" where
  "receive_buoy_data meth body now1 now2 s =
     (if meth = OPTIONS then (Preflight200, s)
      else (case setitem body ''server_timestamp'' (JIso now1) of
        Inl e \<Rightarrow> (Error400 e, s)
      | Inr data \<Rightarrow>
          let s1 = s\<lparr>buoy_data_history :=
                      deque_append history_maxlen data (buoy_data_history s)\<rparr>;
              s2 = s1\<lparr>current_buoy_data := data\<rparr>;
              s3 = s2\<lparr>status := (status s2)\<lparr>buoy_online := True\<rparr>\<rparr>;
              s4 = s3\<lparr>status := (status s3)\<lparr>buoy_last_seen := Some now2\<rparr>\<rparr>;
              s5 = s4\<lparr>status := (status s4)\<lparr>total_messages := total_messages (status s4) + 1\<rparr>\<rparr>;
              s6 = s5\<lparr>emitted := emitted s5 @ [(''buoy_update'', data)]\<rparr>
          in (case gps_log_line data of
                Inl e \<Rightarrow> (Error400 e, s6)
              | Inr _ \<Rightarrow>
                  (case getitem data ''server_timestamp'' of
                     Inl e \<Rightarrow> (Error400 e, s6)
                   | Inr ts \<Rightarrow> (Success200 ts, s6)))))"

text \<open>The base station's log line is \<^verbatim>\<open>{data.get('messages_relayed', 0)}\<close> with no format
  code: it formats every value, so nothing after the emit can raise but the final
  \<^verbatim>\<open>data['server_timestamp']\<close>.\<close>

definition receive_basestation_data ::
  "http_method \<Rightarrow> json \<Rightarrow> datetime \<Rightarrow> datetime \<Rightarrow> server \<Rightarrow> response \<times> server" where
  "receive_basestation_data meth body now1 now2 s =
     (if meth = OPTIONS then (Preflight200, s)
      else (case setitem body ''server_timestamp'' (JIso now1) of
        Inl e \<Rightarrow> (Error400 e, s)
      | Inr data \<Rightarrow>
          let s1 = s\<lparr>base_station_data_history :=
                      deque_append history_maxlen data (base_station_data_history s)\<rparr>;
              s2 = s1\<lparr>current_base_station_data := data\<rparr>;
              s3 = s2\<lparr>status := (status s2)\<lparr>base_station_online := True\<rparr>\<rparr>;
              s4 = s3\<lparr>status := (status s3)\<lparr>base_station_last_seen := Some now2\<rparr>\<rparr>;
              s5 = s4\<lparr>status := (status s4)\<lparr>total_messages := total_messages (status s4) + 1\<rparr>\<rparr>;
              s6 = s5\<lparr>emitted := emitted s5 @ [(''basestation_update'', data)]\<rparr>
          in (case getitem data ''server_timestamp'' of
                Inl e \<Rightarrow> (Error400 e, s6)
              | Inr ts \<Rightarrow> (Success200 ts, s6))))"

section \<open>The GET handlers\<close>

text \<open>\<^verbatim>\<open>xs[i:]\<close>: a negative start counts from the end, and both ends are clipped.\<close>

definition slice_from :: "int \<Rightarrow> 'a list \<Rightarrow> 'a list" where
  "slice_from i xs =
     (let n = int (length xs);
          j = (if i < 0 then max (i + n) 0 else min i n)
      in drop (nat j) xs)"

text \<open>\<^verbatim>\<open>request.args.get('limit', 100, type=int)\<close>: the argument is \<open>None\<close> when the query has
  no \<^verbatim>\<open>limit\<close> or \<^verbatim>\<open>int\<close> rejects its text; both give the default.\<close>

definition args_get_limit :: "int option \<Rightarrow> int" where
  "args_get_limit arg = (case arg of None \<Rightarrow> 100 | Some n \<Rightarrow> n)"

definition get_vessel_history :: "int option \<Rightarrow> server \<Rightarrow> pydict list" where
  "get_vessel_history arg s =
     (let limit = args_get_limit arg in slice_from (- limit) (vessel_data_history s))"

definition get_buoy_history :: "int option \<Rightarrow> server \<Rightarrow> pydict list" where
  "get_buoy_history arg s =
     (let limit = args_get_limit arg in slice_from (- limit) (buoy_data_history s))"

definition get_basestation_history :: "int option \<Rightarrow> server \<Rightarrow> pydict list" where
  "get_basestation_history arg s =
     (let limit = args_get_limit arg in slice_from (- limit) (base_station_data_history s))"

definition get_latest_vessel :: "server \<Rightarrow> pydict" where
  "get_latest_vessel s = current_vessel_data s"

definition get_latest_buoy :: "server \<Rightarrow> pydict" where
  "get_latest_buoy s = current_buoy_data s"

definition get_latest_basestation :: "server \<Rightarrow> pydict" where
  "get_latest_basestation s = current_base_station_data s"

definition get_system_status :: "server \<Rightarrow> system_status" where
  "get_system_status s = status s"

definition get_all_latest :: "server \<Rightarrow> pydict \<times> pydict \<times> pydict \<times> system_status" where
  "get_all_latest s =
     (current_vessel_data s, current_buoy_data s, current_base_station_data s, status s)"

section \<open>The background task\<close>

text \<open>
  One round of the loop of \<^verbatim>\<open>check_device_status\<close>, after its sleep: \<open>current_time\<close> is
  the value of \<^verbatim>\<open>datetime.now()\<close>. A \<^verbatim>\<open>last_seen\<close> that is \<^verbatim>\<open>None\<close> is falsy, an ISO string
  is not. \<^verbatim>\<open>total_seconds()\<close> is the difference in microseconds divided by \<open>10^6\<close>, correctly
  rounded, so it exceeds 30 exactly when the difference exceeds 30000000 microseconds.
\<close>

definition stale :: "datetime \<Rightarrow> datetime \<Rightarrow> bool" where
  "stale current_time last_seen = (30000000 < current_time - last_seen)"

definition check_device_status :: "datetime \<Rightarrow> server \<Rightarrow> server" where
  "check_device_status current_time s =
     (let s1 = (case vessel_last_seen (status s) of
                  None \<Rightarrow> s
                | Some last_seen \<Rightarrow>
                    if stale current_time last_seen
                    then s\<lparr>status := (status s)\<lparr>vessel_online := False\<rparr>\<rparr> else s);
          s2 = (case buoy_last_seen (status s1) of
                  None \<Rightarrow> s1
                | Some last_seen \<Rightarrow>
                    if stale current_time last_seen
                    then s1\<lparr>status := (status s1)\<lparr>buoy_online := False\<rparr>\<rparr> else s1);
          s3 = (case base_station_last_seen (status s2) of
                  None \<Rightarrow> s2
                | Some last_seen \<Rightarrow>
                    if stale current_time last_seen
                    then s2\<lparr>status := (status s2)\<lparr>base_station_online := False\<rparr>\<rparr> else s2)
      in s3)"

section \<open>The store's operations, by category\<close>

datatype category = Vessel | Buoy | BaseStation

fun ingest ::
  "category \<Rightarrow> json \<Rightarrow> datetime \<Rightarrow> datetime \<Rightarrow> server \<Rightarrow> response \<times> server" where
  "ingest Vessel = receive_vessel_data POST"
| "ingest Buoy = receive_buoy_data POST"
| "ingest BaseStation = receive_basestation_data POST"

fun history :: "category \<Rightarrow> server \<Rightarrow> pydict list" where
  "history Vessel s = vessel_data_history s"
| "history Buoy s = buoy_data_history s"
| "history BaseStation s = base_station_data_history s"

fun latest :: "category \<Rightarrow> server \<Rightarrow> pydict" where
  "latest Vessel s = get_latest_vessel s"
| "latest Buoy s = get_latest_buoy s"
| "latest BaseStation s = get_latest_basestation s"

fun online :: "category \<Rightarrow> server \<Rightarrow> bool" where
  "online Vessel s = vessel_online (get_system_status s)"
| "online Buoy s = buoy_online (get_system_status s)"
| "online BaseStation s = base_station_online (get_system_status s)"

fun last_seen :: "category \<Rightarrow> server \<Rightarrow> datetime option" where
  "last_seen Vessel s = vessel_last_seen (get_system_status s)"
| "last_seen Buoy s = buoy_last_seen (get_system_status s)"
| "last_seen BaseStation s = base_station_last_seen (get_system_status s)"

fun get_history :: "category \<Rightarrow> int option \<Rightarrow> server \<Rightarrow> pydict list" where
  "get_history Vessel = get_vessel_history"
| "get_history Buoy = get_buoy_history"
| "get_history BaseStation = get_basestation_history"

definition sweep :: "datetime \<Rightarrow> server \<Rightarrow> server" where
  "sweep now s = check_device_status now s"

definition seconds :: "int \<Rightarrow> int" where
  "seconds n = n * 1000000"

section \<open>Runs of the server\<close>

text \<open>The requests and sweeper rounds that change the state, in the order in which they
  hold the lock.\<close>

datatype event = Ingest category json datetime datetime | Sweep datetime

fun step :: "event \<Rightarrow> server \<Rightarrow> server" where
  "step (Ingest c body now1 now2) s = snd (ingest c body now1 now2 s)"
| "step (Sweep now) s = sweep now s"

definition run :: "event list \<Rightarrow> server \<Rightarrow> server" where
  "run evs s = fold step evs s"

fun is_success :: "response \<Rightarrow> bool" where
  "is_success (Success200 ts) = True"
| "is_success _ = False"

text \<open>The records a run accepts into a category: those a handler stamped and stored,
  in order.\<close>

fun accepted :: "category \<Rightarrow> event list \<Rightarrow> pydict list" where
  "accepted c [] = []"
| "accepted c (Ingest c' body now1 now2 # evs) =
     (if c' = c
      then (case setitem body ''server_timestamp'' (JIso now1) of
              Inl e \<Rightarrow> accepted c evs
            | Inr data \<Rightarrow> data # accepted c evs)
      else accepted c evs)"
| "accepted c (Sweep now # evs) = accepted c evs"

text \<open>The number of ingests into a category that a run answers with success.\<close>

fun successes :: "category \<Rightarrow> event list \<Rightarrow> server \<Rightarrow> nat" where
  "successes c [] s = 0"
| "successes c (Ingest c' body now1 now2 # evs) s =
     (if c' = c \<and> is_success (fst (ingest c' body now1 now2 s)) then 1 else 0)
     + successes c evs (step (Ingest c' body now1 now2) s)"
| "successes c (Sweep now # evs) s = successes c evs (step (Sweep now) s)"

text \<open>The last \<open>n\<close> elements of a list, in order.\<close>

definition lastn :: "nat \<Rightarrow> 'a list \<Rightarrow> 'a list" where
  "lastn n xs = drop (length xs - n) xs"

text \<open>A structurally valid payload is a mapping: a JSON object, a Python dict.\<close>

fun is_mapping :: "json \<Rightarrow> bool" where
  "is_mapping (JObj kvs) = True"
| "is_mapping _ = False"

text \<open>What the store holds for one category.\<close>

definition category_state ::
  "category \<Rightarrow> server \<Rightarrow> pydict list \<times> pydict \<times> bool \<times> datetime option" where
  "category_state c s = (history c s, latest c s, online c s, last_seen c s)"

text \<open>A category passes a sweep when it was never seen, or was last seen not more than
  30 seconds before \<open>now\<close>.\<close>

definition fresh :: "datetime \<Rightarrow> datetime option \<Rightarrow> bool" where
  "fresh now seen = (case seen of None \<Rightarrow> True | Some t \<Rightarrow> \<not> stale now t)"

text \<open>Two payloads a vessel can send: the one of the specification's scenario,
  \<^verbatim>\<open>{"id": "V1", "lat": 12.9, "lon": 77.6}\<close>, and one without a position,
  \<^verbatim>\<open>{"id": "V1"}\<close>.\<close>

definition v1_payload :: json where
  "v1_payload =
     JObj [(''id'', JStr ''V1''), (''lat'', JFloat 0x4029CCCCCCCCCCCD),
           (''lon'', JFloat 0x4053666666666666)]"

definition no_gps_payload :: json where
  "no_gps_payload = JObj [(''id'', JStr ''V1'')]"

section \<open>Basic facts\<close>

lemmas handler_defs =
  receive_vessel_data_def receive_buoy_data_def receive_basestation_data_def

lemmas getter_defs =
  get_latest_vessel_def get_latest_buoy_def get_latest_basestation_def
  get_system_status_def get_vessel_history_def get_buoy_history_def
  get_basestation_history_def

lemma setitem_not_mapping: "\<not> is_mapping body \<Longrightarrow> setitem body k v = Inl TypeError"
  by (cases body) simp_all

lemma setitem_mapping: "is_mapping body \<Longrightarrow> \<exists>d. setitem body k v = Inr d"
  by (cases body) simp_all

lemma getitem_update: "getitem (AList.update k v kvs) k = Inr v"
  by (simp add: getitem_def update_conv')

subsection \<open>What a POST handler does to a mapping\<close>

lemma is_mappingE: "is_mapping body \<Longrightarrow> (\<And>kvs. body = JObj kvs \<Longrightarrow> P) \<Longrightarrow> P"
  by (cases body) simp_all

lemma snd_receive_vessel_data:
  "snd (receive_vessel_data POST (JObj kvs) now1 now2 s) =
     s\<lparr>vessel_data_history :=
         deque_append history_maxlen (AList.update ''server_timestamp'' (JIso now1) kvs)
           (vessel_data_history s),
       current_vessel_data := AList.update ''server_timestamp'' (JIso now1) kvs,
       status := (status s)\<lparr>vessel_online := True, vessel_last_seen := Some now2,
         total_messages := total_messages (status s) + 1\<rparr>,
       emitted := emitted s @
         [(''vessel_update'', AList.update ''server_timestamp'' (JIso now1) kvs)]\<rparr>"
  by (simp add: receive_vessel_data_def Let_def split: sum.splits)

lemma snd_receive_buoy_data:
  "snd (receive_buoy_data POST (JObj kvs) now1 now2 s) =
     s\<lparr>buoy_data_history :=
         deque_append history_maxlen (AList.update ''server_timestamp'' (JIso now1) kvs)
           (buoy_data_history s),
       current_buoy_data := AList.update ''server_timestamp'' (JIso now1) kvs,
       status := (status s)\<lparr>buoy_online := True, buoy_last_seen := Some now2,
         total_messages := total_messages (status s) + 1\<rparr>,
       emitted := emitted s @
         [(''buoy_update'', AList.update ''server_timestamp'' (JIso now1) kvs)]\<rparr>"
  by (simp add: receive_buoy_data_def Let_def split: sum.splits)

lemma snd_receive_basestation_data:
  "snd (receive_basestation_data POST (JObj kvs) now1 now2 s) =
     s\<lparr>base_station_data_history :=
         deque_append history_maxlen (AList.update ''server_timestamp'' (JIso now1) kvs)
           (base_station_data_history s),
       current_base_station_data := AList.update ''server_timestamp'' (JIso now1) kvs,
       status := (status s)\<lparr>base_station_online := True, base_station_last_seen := Some now2,
         total_messages := total_messages (status s) + 1\<rparr>,
       emitted := emitted s @
         [(''basestation_update'', AList.update ''server_timestamp'' (JIso now1) kvs)]\<rparr>"
  by (simp add: receive_basestation_data_def Let_def split: sum.splits)

lemmas snd_receive = snd_receive_vessel_data snd_receive_buoy_data snd_receive_basestation_data

lemma fst_receive_vessel_data:
  "fst (receive_vessel_data POST (JObj kvs) now1 now2 s) =
     (case gps_log_line (AList.update ''server_timestamp'' (JIso now1) kvs) of
        Inl e \<Rightarrow> Error400 e | Inr u \<Rightarrow> Success200 (JIso now1))"
  by (simp add: receive_vessel_data_def Let_def getitem_update split: sum.splits)

lemma fst_receive_buoy_data:
  "fst (receive_buoy_data POST (JObj kvs) now1 now2 s) =
     (case gps_log_line (AList.update ''server_timestamp'' (JIso now1) kvs) of
        Inl e \<Rightarrow> Error400 e | Inr u \<Rightarrow> Success200 (JIso now1))"
  by (simp add: receive_buoy_data_def Let_def getitem_update split: sum.splits)

lemma fst_receive_basestation_data:
  "fst (receive_basestation_data POST (JObj kvs) now1 now2 s) = Success200 (JIso now1)"
  by (simp add: receive_basestation_data_def Let_def getitem_update split: sum.splits)

lemmas fst_receive = fst_receive_vessel_data fst_receive_buoy_data fst_receive_basestation_data


lemma ingest_other_category:
  "c' \<noteq> c \<Longrightarrow> category_state c' (snd (ingest c body now1 now2 s)) = category_state c' s"
proof (cases "is_mapping body")
  case False
  then show ?thesis by (cases c) (simp_all add: handler_defs setitem_not_mapping)
next
  case True
  then obtain kvs where "body = JObj kvs" by (rule is_mappingE)
  moreover assume "c' \<noteq> c"
  ultimately show ?thesis
    by (cases c; cases c') (simp_all add: category_state_def snd_receive getter_defs)
qed

lemma ingest_total_messages:
  "total_messages (status (snd (ingest c body now1 now2 s))) =
     total_messages (status s) + (if is_mapping body then 1 else 0)"
proof (cases "is_mapping body")
  case False
  then show ?thesis by (cases c) (simp_all add: handler_defs setitem_not_mapping)
next
  case True
  then obtain kvs where "body = JObj kvs" by (rule is_mappingE)
  then show ?thesis by (cases c) (simp_all add: snd_receive)
qed

lemma ingest_success_mapping:
  "is_success (fst (ingest c body now1 now2 s)) \<Longrightarrow> is_mapping body"
  by (cases "is_mapping body"; cases c) (simp_all add: handler_defs setitem_not_mapping)

lemma ingest_mapping_online:
  "is_mapping body \<Longrightarrow> online c (snd (ingest c body now1 now2 s))"
  by (erule is_mappingE, cases c) (simp_all add: snd_receive getter_defs)

lemma ingest_mapping_last_seen:
  "is_mapping body \<Longrightarrow> last_seen c (snd (ingest c body now1 now2 s)) = Some now2"
  by (erule is_mappingE, cases c) (simp_all add: snd_receive getter_defs)

lemma ingest_mapping_latest:
  "latest c (snd (ingest c (JObj kvs) now1 now2 s)) =
     AList.update ''server_timestamp'' (JIso now1) kvs"
  by (cases c) (simp_all add: snd_receive getter_defs)

lemma ingest_mapping_history:
  "history c (snd (ingest c (JObj kvs) now1 now2 s)) =
     deque_append history_maxlen (AList.update ''server_timestamp'' (JIso now1) kvs)
       (history c s)"
  by (cases c) (simp_all add: snd_receive getter_defs)

lemma ingest_mapping_emitted:
  "emitted (snd (ingest c (JObj kvs) now1 now2 s)) =
     emitted s @
       [(case c of Vessel \<Rightarrow> ''vessel_update'' | Buoy \<Rightarrow> ''buoy_update''
           | BaseStation \<Rightarrow> ''basestation_update'',
         AList.update ''server_timestamp'' (JIso now1) kvs)]"
  by (cases c) (simp_all add: snd_receive getter_defs)

lemma ingest_success_timestamp:
  assumes "fst (ingest c body now1 now2 s) = Success200 ts" shows "ts = JIso now1"
proof -
  from assms have "is_mapping body" using ingest_success_mapping[of c body now1 now2 s] by simp
  then obtain kvs where "body = JObj kvs" by (rule is_mappingE)
  with assms show ?thesis by (cases c) (simp_all add: fst_receive split: sum.splits)
qed


lemma check_device_status_eq:
  "check_device_status now s =
     s\<lparr>status := (status s)\<lparr>
        vessel_online := vessel_online (status s) \<and> fresh now (vessel_last_seen (status s)),
        buoy_online := buoy_online (status s) \<and> fresh now (buoy_last_seen (status s)),
        base_station_online :=
          base_station_online (status s) \<and> fresh now (base_station_last_seen (status s))\<rparr>\<rparr>"
proof -
  let ?t = "status s"
  have a: "(case vessel_last_seen ?t of None \<Rightarrow> s
            | Some t0 \<Rightarrow> if stale now t0 then s\<lparr>status := ?t\<lparr>vessel_online := False\<rparr>\<rparr> else s)
           = s\<lparr>status := ?t\<lparr>vessel_online := vessel_online ?t \<and> fresh now (vessel_last_seen ?t)\<rparr>\<rparr>" (is "?l = ?s1")
    by (simp add: fresh_def split: option.splits)
  have b: "(case buoy_last_seen (status ?s1) of None \<Rightarrow> ?s1
            | Some t0 \<Rightarrow> if stale now t0 then ?s1\<lparr>status := (status ?s1)\<lparr>buoy_online := False\<rparr>\<rparr> else ?s1)
           = ?s1\<lparr>status := (status ?s1)\<lparr>buoy_online := buoy_online ?t \<and> fresh now (buoy_last_seen ?t)\<rparr>\<rparr>" (is "?l2 = ?s2")
    by (simp add: fresh_def split: option.splits)
  have c: "(case base_station_last_seen (status ?s2) of None \<Rightarrow> ?s2
            | Some t0 \<Rightarrow> if stale now t0 then ?s2\<lparr>status := (status ?s2)\<lparr>base_station_online := False\<rparr>\<rparr> else ?s2)
           = ?s2\<lparr>status := (status ?s2)\<lparr>base_station_online := base_station_online ?t \<and> fresh now (base_station_last_seen ?t)\<rparr>\<rparr>"
    by (simp add: fresh_def split: option.splits)
  show ?thesis
    unfolding check_device_status_def Let_def a b c by simp
qed

lemma online_sweep:
  "online c (sweep now s) = (online c s \<and> fresh now (last_seen c s))"
  by (cases c) (simp_all add: sweep_def check_device_status_eq getter_defs)

lemma sweep_keeps:
  "last_seen c (sweep now s) = last_seen c s"
  "history c (sweep now s) = history c s"
  "latest c (sweep now s) = latest c s"
  by (cases c; simp add: sweep_def check_device_status_eq getter_defs)+

lemma sweep_keeps_shared:
  "total_messages (status (sweep now s)) = total_messages (status s)"
  "emitted (sweep now s) = emitted s"
  by (simp_all add: sweep_def check_device_status_eq)

lemma sweep_idem: "sweep now (sweep now s) = sweep now s"
  by (simp add: sweep_def check_device_status_eq)

lemma fresh_iff: "fresh now seen = (\<not> (\<exists>t. seen = Some t \<and> seconds 30 < now - t))"
  by (cases seen) (simp_all add: fresh_def stale_def seconds_def)

lemma ingest_non_mapping:
  "\<not> is_mapping body \<Longrightarrow> ingest c body now1 now2 s = (Error400 TypeError, s)"
  by (cases c) (simp_all add: handler_defs setitem_not_mapping)

subsection \<open>The history of a run\<close>

lemma length_lastn: "length (lastn m xs) = min m (length xs)"
  by (simp add: lastn_def)

lemma lastn_all: "length xs \<le> m \<Longrightarrow> lastn m xs = xs"
  by (simp add: lastn_def)

lemma deque_append_lastn:
  assumes "length d \<le> m"
  shows "deque_append m x d = lastn m (d @ [x])"
proof (cases "m < length (d @ [x])")
  case True
  with assms have "length d = m" by simp
  then have "lastn m (d @ [x]) = drop 1 (d @ [x])" by (simp add: lastn_def)
  also have "\<dots> = tl (d @ [x])" by (cases d) simp_all
  finally show ?thesis using True by (simp add: deque_append_def Let_def)
next
  case False
  then show ?thesis by (simp add: deque_append_def Let_def lastn_def)
qed

lemma lastn_lastn_append: "lastn m (lastn m xs @ ys) = lastn m (xs @ ys)"
proof (cases "length xs \<le> m")
  case True
  then show ?thesis by (simp add: lastn_def)
next
  case False
  then have "length xs - m + m = length xs" by simp
  then show ?thesis by (simp add: lastn_def ac_simps)
qed

lemma last_deque_append: "0 < m \<Longrightarrow> last (deque_append m x d) = x"
  by (cases d) (simp_all add: deque_append_def Let_def)

lemma deque_append_full: "length d = m \<Longrightarrow> 0 < m \<Longrightarrow> deque_append m x d = tl d @ [x]"
  by (cases d) (simp_all add: deque_append_def Let_def)

lemma step_history:
  assumes "length (history c s) \<le> history_maxlen"
  shows "history c (step e s) = lastn history_maxlen (history c s @ accepted c [e])"
proof (cases e)
  case (Sweep now)
  with assms show ?thesis by (simp add: sweep_keeps lastn_all)
next
  case (Ingest c' body now1 now2)
  show ?thesis
  proof (cases "c' = c \<and> is_mapping body")
    case True
    then obtain kvs where "body = JObj kvs" by (auto elim: is_mappingE)
    with True Ingest assms show ?thesis
      by (simp add: ingest_mapping_history deque_append_lastn)
  next
    case False
    then consider "c' \<noteq> c" | "c' = c" "\<not> is_mapping body" by auto
    then show ?thesis
    proof cases
      case 1
      then have "history c (step e s) = history c s"
        using ingest_other_category [of c c' body now1 now2 s] Ingest
        by (simp add: category_state_def)
      with 1 Ingest assms show ?thesis by (simp add: lastn_all split: sum.splits)
    next
      case 2
      with Ingest assms show ?thesis
        by (simp add: handler_defs setitem_not_mapping lastn_all ingest_non_mapping)
    qed
  qed
qed

lemma run_history:
  "length (history c s) \<le> history_maxlen \<Longrightarrow>
   history c (run evs s) = lastn history_maxlen (history c s @ accepted c evs)"
proof (induction evs arbitrary: s)
  case Nil
  then show ?case by (simp add: run_def lastn_all)
next
  case (Cons e evs)
  have h: "history c (step e s) = lastn history_maxlen (history c s @ accepted c [e])"
    using Cons.prems by (rule step_history)
  then have "length (history c (step e s)) \<le> history_maxlen"
    by (simp add: length_lastn)
  then have "history c (run evs (step e s)) =
      lastn history_maxlen (history c (step e s) @ accepted c evs)"
    by (rule Cons.IH)
  also have "\<dots> = lastn history_maxlen ((history c s @ accepted c [e]) @ accepted c evs)"
    by (simp only: h lastn_lastn_append)
  finally have r: "history c (run evs (step e s)) =
      lastn history_maxlen (history c s @ accepted c [e] @ accepted c evs)"
    by simp
  have "accepted c [e] @ accepted c evs = accepted c (e # evs)"
    by (cases e) (simp_all split: sum.splits)
  with r show ?case by (simp add: run_def)
qed

lemma successes_le_accepted: "successes c evs s \<le> length (accepted c evs)"
proof (induction evs arbitrary: s)
  case Nil
  then show ?case by simp
next
  case (Cons e evs)
  show ?case
  proof (cases e)
    case (Sweep now)
    then show ?thesis using Cons.IH [of "step e s"] by simp
  next
    case (Ingest c' body now1 now2)
    have "is_success (fst (ingest c' body now1 now2 s)) \<Longrightarrow>
        \<exists>d. setitem body ''server_timestamp'' (JIso now1) = Inr d"
      by (rule setitem_mapping) (rule ingest_success_mapping)
    then show ?thesis using Cons.IH [of "step e s"] Ingest
      by (auto split: sum.splits)
  qed
qed

subsection \<open>Sample runs and history reads\<close>

lemma v1_success:
  "fst (receive_vessel_data POST v1_payload now1 now2 s) = Success200 (JIso now1)"
  by (simp add: v1_payload_def fst_receive gps_log_line_def dict_get_def)

lemma v1_accepted:
  "setitem v1_payload ''server_timestamp'' (JIso now1) =
     Inr [(''id'', JStr ''V1''), (''lat'', JFloat 0x4029CCCCCCCCCCCD),
          (''lon'', JFloat 0x4053666666666666), (''server_timestamp'', JIso now1)]"
  by (simp add: v1_payload_def)

lemma successes_replicate_v1:
  "successes Vessel (replicate n (Ingest Vessel v1_payload now1 now2)) s = n"
  by (induction n arbitrary: s) (simp_all add: v1_success)

lemma accepted_replicate_v1:
  "accepted Vessel (replicate n (Ingest Vessel v1_payload now1 now2)) =
     replicate n [(''id'', JStr ''V1''), (''lat'', JFloat 0x4029CCCCCCCCCCCD),
          (''lon'', JFloat 0x4053666666666666), (''server_timestamp'', JIso now1)]"
  by (induction n) (simp_all add: v1_accepted)

lemma initial_history: "history c initial_server = []"
  by (cases c) (simp_all add: initial_server_def)

lemma slice_from_neg: "0 < l \<Longrightarrow> slice_from (- l) xs = lastn (nat l) xs"
  by (auto simp add: slice_from_def lastn_def Let_def max_def nat_diff_distrib' intro: arg_cong [where f = "\<lambda>n. drop n xs"])

lemma get_history_eq: "get_history c arg s = slice_from (- args_get_limit arg) (history c s)"
  by (cases c) (simp_all add: getter_defs)

lemma suffix_slice_from: "suffix (slice_from i xs) xs"
  by (simp add: slice_from_def Let_def suffix_drop)

subsection \<open>The counter and the sample payloads\<close>

lemma v1_ingest_success: "fst (ingest Vessel v1_payload now1 now2 s) = Success200 (JIso now1)"
  by (simp add: v1_success)

lemma v1_is_mapping: "is_mapping v1_payload"
  by (simp add: v1_payload_def)

lemma initial_category_state: "category_state c initial_server = ([], [], False, None)"
  by (cases c) (simp_all add: category_state_def initial_server_def initial_status_def getter_defs)

lemma no_gps_failure:
  "fst (receive_vessel_data POST no_gps_payload now1 now2 s) = Error400 TypeError"
  by (simp add: no_gps_payload_def fst_receive gps_log_line_def dict_get_def)

lemma initial_total_messages: "total_messages (status initial_server) = 0"
  by (simp add: initial_server_def initial_status_def)

lemma step_total_messages:
  "total_messages (status (step e s)) =
     total_messages (status s) +
       int (length (accepted Vessel [e]) + length (accepted Buoy [e]) +
            length (accepted BaseStation [e]))"
proof (cases e)
  case (Sweep now)
  then show ?thesis by (simp add: sweep_keeps_shared)
next
  case (Ingest c body now1 now2)
  show ?thesis
  proof (cases "is_mapping body")
    case True
    then obtain kvs where "body = JObj kvs" by (rule is_mappingE)
    with Ingest show ?thesis by (cases c) (simp_all add: snd_receive)
  next
    case False
    with Ingest show ?thesis
      by (simp add: ingest_non_mapping setitem_not_mapping)
  qed
qed

lemma accepted_Cons: "accepted c (e # evs) = accepted c [e] @ accepted c evs"
  by (cases e) (simp_all split: sum.splits)

lemma run_total_messages:
  "total_messages (status (run evs s)) =
     total_messages (status s) +
       int (length (accepted Vessel evs) + length (accepted Buoy evs) +
            length (accepted BaseStation evs))"
proof (induction evs arbitrary: s)
  case Nil
  then show ?case by (simp add: run_def)
next
  case (Cons e evs)
  have "run (e # evs) s = run evs (step e s)" by (simp add: run_def)
  then show ?case
    using Cons.IH [of "step e s"] step_total_messages [of e s]
      accepted_Cons [of Vessel e evs] accepted_Cons [of Buoy e evs]
      accepted_Cons [of BaseStation e evs]
    by simp
qed

section \<open>Rejected payloads\<close>

text \<open>
  Claim C5. An ingest whose payload is not a mapping is answered with the error response
  (the \<^verbatim>\<open>TypeError\<close> of the item assignment, status 400) and returns the state it was
  given: the counter, every history, latest record, online flag and last-seen time are
  the same, and nothing was handed to \<^verbatim>\<open>socketio.emit\<close>.
\<close>

theorem ingest_rejects_non_mapping:
  "\<not> is_mapping body \<Longrightarrow> ingest c body now1 now2 s = (Error400 TypeError, s)"
  by (cases c) (simp_all add: handler_defs setitem_not_mapping)

theorem ingest_rejects_non_mapping_witness:
  "\<not> is_mapping (JStr ''not-a-mapping'') \<and>
   ingest Vessel (JStr ''not-a-mapping'') 0 0 initial_server = (Error400 TypeError, initial_server)"
  using ingest_rejects_non_mapping [of "JStr ''not-a-mapping''" Vessel 0 0 initial_server]
  by simp

section \<open>Bounded history\<close>

text \<open>
  Claim C1. In every state the server reaches, a category's history holds at most 1000
  records: it is the last 1000 of the records accepted into the category, in the order
  of acceptance, oldest first; an append to a full history drops its oldest record. After
  more than 1000 successful ingests into the category, the history read with limit 1000
  returns exactly these last 1000 accepted records, and there are 1000 of them.
\<close>

theorem bounded_history:
  "length (history c (run evs initial_server)) \<le> 1000 \<and>
   history c (run evs initial_server) = lastn 1000 (accepted c evs) \<and>
   (length d = 1000 \<longrightarrow> deque_append history_maxlen x d = tl d @ [x]) \<and>
   (1000 < successes c evs initial_server \<longrightarrow>
      get_history c (Some 1000) (run evs initial_server) = lastn 1000 (accepted c evs) \<and>
      length (get_history c (Some 1000) (run evs initial_server)) = 1000)"
proof -
  have h: "history c (run evs initial_server) = lastn 1000 (accepted c evs)"
    using run_history [of c initial_server evs]
    by (simp add: initial_history history_maxlen_def)
  have g: "get_history c (Some 1000) (run evs initial_server) = lastn 1000 (accepted c evs)"
    by (simp add: get_history_eq args_get_limit_def slice_from_neg h lastn_def)
  have "1000 < length (accepted c evs)" if "1000 < successes c evs initial_server"
    using that successes_le_accepted [of c evs initial_server] by simp
  then show ?thesis
    by (simp add: h g length_lastn deque_append_full history_maxlen_def)
qed

theorem bounded_history_witness:
  "1000 < successes Vessel (replicate 1001 (Ingest Vessel v1_payload 7 8)) initial_server \<and>
   get_history Vessel (Some 1000) (run (replicate 1001 (Ingest Vessel v1_payload 7 8)) initial_server) =
     replicate 1000 [(''id'', JStr ''V1''), (''lat'', JFloat 0x4029CCCCCCCCCCCD),
          (''lon'', JFloat 0x4053666666666666), (''server_timestamp'', JIso 7)]"
  using bounded_history [of Vessel "replicate 1001 (Ingest Vessel v1_payload 7 8)" "[]" "[]"]
  by (simp add: successes_replicate_v1 accepted_replicate_v1 lastn_def)

section \<open>The counter of accepted messages\<close>

text \<open>
  Claim C2. The counter \<open>total_messages\<close> grows by one for every record a handler stores
  (lemma \<open>run_total_messages\<close>) and nothing decreases it. It is not the number of
  successful ingests: a vessel ingest of \<^verbatim>\<open>{"id": "V1"}\<close> into the initial state stores
  the record and counts it, then raises in the log line and is answered with the error
  response. After this run no ingest has succeeded and the counter is 1.
\<close>

theorem failed_ingest_is_counted:
  "successes Vessel [Ingest Vessel no_gps_payload 5 6] initial_server = 0 \<and>
   successes Buoy [Ingest Vessel no_gps_payload 5 6] initial_server = 0 \<and>
   successes BaseStation [Ingest Vessel no_gps_payload 5 6] initial_server = 0 \<and>
   total_messages (status (run [Ingest Vessel no_gps_payload 5 6] initial_server)) = 1"
  by (simp add: run_def no_gps_payload_def fst_receive snd_receive gps_log_line_def
      dict_get_def initial_total_messages)

section \<open>Liveness\<close>

text \<open>
  Claim C3. For a category that is online and was last seen at \<open>T\<close>: the sweep at
  \<open>T + 31s\<close> sets it offline, the sweep at \<open>T + 29s\<close> leaves it online, and in general
  it stays online exactly when not more than 30 seconds have passed; a successful ingest
  into the category, in whatever state, leaves it online at once.
\<close>

theorem liveness_transition:
  "last_seen c s = Some T \<Longrightarrow> online c s \<Longrightarrow>
     \<not> online c (sweep (T + seconds 31) s) \<and>
     online c (sweep (T + seconds 29) s) \<and>
     (online c (sweep now s) \<longleftrightarrow> now - T \<le> seconds 30) \<and>
     (is_success (fst (ingest c body now1 now2 s')) \<longrightarrow>
        online c (snd (ingest c body now1 now2 s')))"
  by (auto simp add: online_sweep fresh_def stale_def seconds_def
        dest: ingest_success_mapping intro: ingest_mapping_online)

theorem liveness_transition_witness:
  "last_seen Vessel (snd (ingest Vessel v1_payload 0 0 initial_server)) = Some 0 \<and>
   online Vessel (snd (ingest Vessel v1_payload 0 0 initial_server)) \<and>
   \<not> online Vessel (sweep (0 + seconds 31) (snd (ingest Vessel v1_payload 0 0 initial_server))) \<and>
   online Vessel (sweep (0 + seconds 29) (snd (ingest Vessel v1_payload 0 0 initial_server))) \<and>
   is_success (fst (ingest Vessel v1_payload (seconds 40) (seconds 40)
     (sweep (0 + seconds 31) (snd (ingest Vessel v1_payload 0 0 initial_server))))) \<and>
   online Vessel (snd (ingest Vessel v1_payload (seconds 40) (seconds 40)
     (sweep (0 + seconds 31) (snd (ingest Vessel v1_payload 0 0 initial_server)))))"
  using liveness_transition [where c = Vessel and T = 0 and now = 0
    and s = "snd (ingest Vessel v1_payload 0 0 initial_server)"
    and body = v1_payload and ?now1.0 = "seconds 40" and ?now2.0 = "seconds 40"
    and s' = "sweep (0 + seconds 31) (snd (ingest Vessel v1_payload 0 0 initial_server))"]
    ingest_mapping_last_seen [of v1_payload Vessel 0 0 initial_server]
    ingest_mapping_online [of v1_payload Vessel 0 0 initial_server]
  by (simp add: v1_success v1_is_mapping)

section \<open>Payloads without a position\<close>

text \<open>
  Claim C4. A mapping is a structurally valid payload, yet the vessel and buoy handlers
  fail on \<^verbatim>\<open>{"id": "V1"}\<close>: \<^verbatim>\<open>data.get('lat')\<close> is \<^verbatim>\<open>None\<close>, the format code
  \<^verbatim>\<open>.4f\<close> of the log line raises \<^verbatim>\<open>TypeError\<close>, and the answer is the error response,
  although the record is already stored and emitted.
\<close>

theorem ingest_without_position_fails:
  "is_mapping no_gps_payload \<and>
   fst (ingest Vessel no_gps_payload 5 6 initial_server) = Error400 TypeError \<and>
   fst (ingest Buoy no_gps_payload 5 6 initial_server) = Error400 TypeError \<and>
   history Vessel (snd (ingest Vessel no_gps_payload 5 6 initial_server)) =
     [[(''id'', JStr ''V1''), (''server_timestamp'', JIso 5)]] \<and>
   emitted (snd (ingest Vessel no_gps_payload 5 6 initial_server)) =
     [(''vessel_update'', [(''id'', JStr ''V1''), (''server_timestamp'', JIso 5)])]"
  by (simp add: no_gps_payload_def fst_receive snd_receive gps_log_line_def dict_get_def
      initial_server_def deque_append_def history_maxlen_def)

section \<open>History reads\<close>

text \<open>
  Claim C6, as the code has it. A history read without a usable \<^verbatim>\<open>limit\<close> is the read
  with limit 100; a positive limit \<open>l\<close> returns the last \<open>l\<close> records, or all of them when
  there are fewer, in order; and no read is rejected: every limit, negative and zero
  included, returns a final segment of the history.
\<close>

theorem history_limit:
  "get_history c None s = get_history c (Some 100) s \<and>
   (0 < l \<longrightarrow> get_history c (Some l) s = lastn (nat l) (history c s)) \<and>
   suffix (get_history c arg s) (history c s)"
  by (simp add: get_history_eq args_get_limit_def slice_from_neg suffix_slice_from)

theorem history_limit_witness:
  "(0::int) < 1 \<and>
   get_history Vessel (Some 1)
     (run [Ingest Vessel v1_payload 1 1, Ingest Vessel v1_payload 2 2] initial_server) =
     [[(''id'', JStr ''V1''), (''lat'', JFloat 0x4029CCCCCCCCCCCD),
       (''lon'', JFloat 0x4053666666666666), (''server_timestamp'', JIso 2)]]"
  using history_limit [of Vessel
      "run [Ingest Vessel v1_payload 1 1, Ingest Vessel v1_payload 2 2] initial_server" 1 None]
    run_history [of Vessel initial_server
      "[Ingest Vessel v1_payload 1 1, Ingest Vessel v1_payload 2 2]"]
  by (simp add: initial_server_def history_maxlen_def v1_accepted lastn_def)

section \<open>A negative limit\<close>

text \<open>
  Claim C6 as stated fails: with two records stored, the read with limit \<open>-1\<close> is not
  rejected and returns the newer record, and the read with limit \<open>0\<close> returns both.
\<close>

theorem negative_limit_returns_records:
  "get_history Vessel (Some (- 1))
     (run [Ingest Vessel v1_payload 1 1, Ingest Vessel v1_payload 2 2] initial_server) =
     [[(''id'', JStr ''V1''), (''lat'', JFloat 0x4029CCCCCCCCCCCD),
       (''lon'', JFloat 0x4053666666666666), (''server_timestamp'', JIso 2)]] \<and>
   get_history Vessel (Some 0)
     (run [Ingest Vessel v1_payload 1 1, Ingest Vessel v1_payload 2 2] initial_server) =
     [[(''id'', JStr ''V1''), (''lat'', JFloat 0x4029CCCCCCCCCCCD),
       (''lon'', JFloat 0x4053666666666666), (''server_timestamp'', JIso 1)],
      [(''id'', JStr ''V1''), (''lat'', JFloat 0x4029CCCCCCCCCCCD),
       (''lon'', JFloat 0x4053666666666666), (''server_timestamp'', JIso 2)]]"
  using run_history [of Vessel initial_server
      "[Ingest Vessel v1_payload 1 1, Ingest Vessel v1_payload 2 2]"]
  by (simp add: getter_defs args_get_limit_def slice_from_def
      initial_server_def history_maxlen_def v1_accepted lastn_def)

section \<open>The accepted timestamp\<close>

text \<open>
  Claim C7, as the code has it. The timestamp a successful ingest returns is the first
  clock reading, the one stamped into the stored record under \<^verbatim>\<open>server_timestamp\<close>; the
  stored record is the category's latest and the newest entry of its history. The
  category's \<open>last_seen\<close> is the second clock reading, taken inside the critical section:
  it is the stamped timestamp exactly when the two readings coincide.
\<close>

theorem accepted_timestamp:
  "fst (ingest c body now1 now2 s) = Success200 ts \<Longrightarrow>
     ts = JIso now1 \<and>
     getitem (latest c (snd (ingest c body now1 now2 s))) ''server_timestamp'' = Inr ts \<and>
     last (history c (snd (ingest c body now1 now2 s))) =
       latest c (snd (ingest c body now1 now2 s)) \<and>
     last_seen c (snd (ingest c body now1 now2 s)) = Some now2 \<and>
     (last_seen c (snd (ingest c body now1 now2 s)) = Some now1 \<longleftrightarrow> now2 = now1)"
proof -
  assume a: "fst (ingest c body now1 now2 s) = Success200 ts"
  then have m: "is_mapping body"
    using ingest_success_mapping [of c body now1 now2 s] by simp
  then obtain kvs where b: "body = JObj kvs" by (rule is_mappingE)
  have t: "ts = JIso now1" using a by (rule ingest_success_timestamp)
  have l: "last_seen c (snd (ingest c body now1 now2 s)) = Some now2"
    using m by (rule ingest_mapping_last_seen)
  show ?thesis
    unfolding l unfolding b t
    by (simp add: ingest_mapping_latest ingest_mapping_history getitem_update
        last_deque_append history_maxlen_def)
qed

theorem accepted_timestamp_witness:
  "fst (ingest Vessel v1_payload 5 5 initial_server) = Success200 (JIso 5) \<and>
   getitem (latest Vessel (snd (ingest Vessel v1_payload 5 5 initial_server)))
     ''server_timestamp'' = Inr (JIso 5) \<and>
   last_seen Vessel (snd (ingest Vessel v1_payload 5 5 initial_server)) = Some 5"
  using accepted_timestamp [of Vessel v1_payload 5 5 initial_server "JIso 5"]
  by (simp add: v1_success)

section \<open>Two clock readings\<close>

text \<open>
  Claim C7 as stated fails: with the readings 5 and 7, the ingest succeeds, returns and
  stamps 5, and sets \<open>last_seen\<close> to 7.
\<close>

theorem last_seen_is_second_reading:
  "fst (ingest Vessel v1_payload 5 7 initial_server) = Success200 (JIso 5) \<and>
   getitem (latest Vessel (snd (ingest Vessel v1_payload 5 7 initial_server)))
     ''server_timestamp'' = Inr (JIso 5) \<and>
   last_seen Vessel (snd (ingest Vessel v1_payload 5 7 initial_server)) = Some 7 \<and>
   last_seen Vessel (snd (ingest Vessel v1_payload 5 7 initial_server)) \<noteq> Some 5"
  by (simp add: v1_payload_def fst_receive snd_receive gps_log_line_def dict_get_def
      getter_defs getitem_def)

section \<open>The sweep\<close>

text \<open>
  Claim C8. A sweep repeated at the same instant changes nothing more. It leaves alone a
  category that is offline or was never seen. After it a category is online exactly when
  it was online before and its \<open>last_seen\<close>, if set, is not more than 30 seconds older
  than \<open>now\<close>. It changes no \<open>last_seen\<close>, history or latest record, nor the counter or
  the emitted events.
\<close>

theorem sweep_idempotent:
  "sweep now (sweep now s) = sweep now s \<and>
   (\<not> online c s \<or> last_seen c s = None \<longrightarrow> category_state c (sweep now s) = category_state c s) \<and>
   (online c (sweep now s) \<longleftrightarrow>
      online c s \<and> \<not> (\<exists>t. last_seen c s = Some t \<and> seconds 30 < now - t)) \<and>
   last_seen c (sweep now s) = last_seen c s \<and>
   history c (sweep now s) = history c s \<and>
   latest c (sweep now s) = latest c s \<and>
   total_messages (status (sweep now s)) = total_messages (status s) \<and>
   emitted (sweep now s) = emitted s"
  by (auto simp add: sweep_idem category_state_def online_sweep sweep_keeps sweep_keeps_shared fresh_iff)

theorem sweep_idempotent_witness:
  "last_seen Buoy initial_server = None \<and>
   category_state Buoy (sweep (seconds 100) initial_server) = category_state Buoy initial_server \<and>
   sweep (seconds 100) (sweep (seconds 100) initial_server) = sweep (seconds 100) initial_server"
  using sweep_idempotent [of "seconds 100" initial_server Buoy] initial_category_state [of Buoy]
  by (simp add: category_state_def)

section \<open>Other categories\<close>

text \<open>
  Claim C10. An ingest into one category, successful or not, leaves the history, latest
  record, online flag and \<open>last_seen\<close> of every other category as they were; the shared
  counter grows by one when the payload is a mapping.
\<close>

theorem ingest_frame:
  "c' \<noteq> c \<Longrightarrow>
     history c' (snd (ingest c body now1 now2 s)) = history c' s \<and>
     latest c' (snd (ingest c body now1 now2 s)) = latest c' s \<and>
     online c' (snd (ingest c body now1 now2 s)) = online c' s \<and>
     last_seen c' (snd (ingest c body now1 now2 s)) = last_seen c' s \<and>
     total_messages (status (snd (ingest c body now1 now2 s))) =
       total_messages (status s) + (if is_mapping body then 1 else 0)"
  using ingest_other_category [of c' c body now1 now2 s]
  by (simp add: category_state_def ingest_total_messages)

theorem ingest_frame_witness:
  "Buoy \<noteq> Vessel \<and>
   is_success (fst (ingest Vessel v1_payload 5 6 initial_server)) \<and>
   history Buoy (snd (ingest Vessel v1_payload 5 6 initial_server)) = [] \<and>
   latest Buoy (snd (ingest Vessel v1_payload 5 6 initial_server)) = [] \<and>
   online Buoy (snd (ingest Vessel v1_payload 5 6 initial_server)) = False \<and>
   last_seen Buoy (snd (ingest Vessel v1_payload 5 6 initial_server)) = None \<and>
   total_messages (status (snd (ingest Vessel v1_payload 5 6 initial_server))) = 1"
  using ingest_frame [of Buoy Vessel v1_payload 5 6 initial_server]
    initial_category_state [of Buoy]
  by (simp add: v1_success v1_is_mapping category_state_def initial_server_def initial_status_def)

end
